theory Spec2Isabelle
  imports Complex_Main "HOL-Library.AList"
begin

section \<open>Python exceptions\<close>

text \<open>
  The exceptions that the modelled functions of \<^verbatim>\<open>vits/utils.py\<close> can raise.
  A function that may raise returns \<open>error + 'a\<close>, with \<open>Inl\<close> for the exception.
\<close>

datatype error =
    TypeError
  | ValueError
  | RuntimeError
  | AssertionError
  | IndexError
  | AttributeError

section \<open>Floating-point values\<close>

text \<open>
  A finite floating-point number is idealised as a real number (no rounding error, no
  overflow); the three special values are kept, because the logarithm produces them:
  \<^verbatim>\<open>log(0) = -inf\<close> and \<^verbatim>\<open>log(x) = nan\<close> for negative \<^verbatim>\<open>x\<close>.
  The idealisation keeps what does not depend on the rounding of the arithmetic (the range
  of the bins, the saturation, the monotonicity, which objects are written); it does not
  tell at which floating-point inputs a rescaled value falls exactly between two integers,
  so nothing is stated here about the inputs on which the two rounding branches of
  \<^verbatim>\<open>f0_to_coarse\<close> differ.
\<close>

datatype flt = Fin real | PInf | NInf | NaN

text \<open>
  Applying an increasing affine map (\<^verbatim>\<open>1 + x / 700\<close>, \<^verbatim>\<open>1127 * x\<close>, \<^verbatim>\<open>x + 0.5\<close>, ...):
  the infinities and NaN are passed on.
\<close>

fun fl_map :: "(real \<Rightarrow> real) \<Rightarrow> flt \<Rightarrow> flt" where
  "fl_map g (Fin r) = Fin (g r)"
| "fl_map g PInf = PInf"
| "fl_map g NInf = NInf"
| "fl_map g NaN = NaN"

fun fl_log :: "flt \<Rightarrow> flt" where
  "fl_log (Fin r) = (if 0 < r then Fin (ln r) else if r = 0 then NInf else NaN)"
| "fl_log PInf = PInf"
| "fl_log NInf = NaN"
| "fl_log NaN = NaN"

text \<open>Comparisons with a finite constant; every comparison with NaN is false.\<close>

fun fl_gt :: "flt \<Rightarrow> real \<Rightarrow> bool" where
  "fl_gt (Fin r) c = (c < r)"
| "fl_gt PInf c = True"
| "fl_gt NInf c = False"
| "fl_gt NaN c = False"

fun fl_le :: "flt \<Rightarrow> real \<Rightarrow> bool" where
  "fl_le (Fin r) c = (r \<le> c)"
| "fl_le PInf c = False"
| "fl_le NInf c = True"
| "fl_le NaN c = False"

text \<open>\<^verbatim>\<open>np.rint\<close>: round to the nearest integer, ties to the even one.\<close>

definition round_half_even :: "real \<Rightarrow> int" where
  "round_half_even r =
     (let f = \<lfloor>r\<rfloor>; d = r - of_int f
      in if d < 1 / 2 then f
         else if 1 / 2 < d then f + 1
         else if even f then f else f + 1)"

fun fl_rint :: "flt \<Rightarrow> flt" where
  "fl_rint (Fin r) = Fin (of_int (round_half_even r))"
| "fl_rint PInf = PInf"
| "fl_rint NInf = NInf"
| "fl_rint NaN = NaN"

text \<open>
  Conversion to a 64-bit integer (\<^verbatim>\<open>.astype(np.int)\<close>, \<^verbatim>\<open>.long()\<close>): truncation toward
  zero. A value that does not fit, an infinity and NaN give the smallest 64-bit integer
  (the "integer indefinite" value of the conversion instruction). \<^verbatim>\<open>np.int\<close> is read as
  the alias of the built-in \<^verbatim>\<open>int\<close> that numpy provided up to version 1.23.
\<close>

definition int64_min :: int where
  "int64_min = - (2 ^ 63)"

definition trunc_int :: "real \<Rightarrow> int" where
  "trunc_int r = (if 0 \<le> r then \<lfloor>r\<rfloor> else \<lceil>r\<rceil>)"

fun to_int64 :: "flt \<Rightarrow> int" where
  "to_int64 (Fin r) =
     (let t = trunc_int r in if int64_min \<le> t \<and> t < 2 ^ 63 then t else int64_min)"
| "to_int64 PInf = int64_min"
| "to_int64 NInf = int64_min"
| "to_int64 NaN = int64_min"

section \<open>Pitch quantisation: \<^verbatim>\<open>f0_to_coarse\<close>\<close>

definition f0_bin :: real where
  "f0_bin = 256"

definition f0_max :: real where
  "f0_max = 1100"

definition f0_min :: real where
  "f0_min = 50"

definition f0_mel_min :: real where
  "f0_mel_min = 1127 * ln (1 + f0_min / 700)"

definition f0_mel_max :: real where
  "f0_mel_max = 1127 * ln (1 + f0_max / 700)"

text \<open>
  The argument of \<^verbatim>\<open>f0_to_coarse\<close>: a Python float, a one-dimensional numpy array or a
  one-dimensional torch tensor.
\<close>

datatype pyval = PyFloat real | NdArray "flt list" | Tensor "flt list"

text \<open>
  Line 30: \<^verbatim>\<open>f0_mel = 1127 * log(1 + f0 / 700)\<close>, element by element.
\<close>

definition mel_of :: "flt \<Rightarrow> flt" where
  "mel_of x = fl_map (\<lambda>r. 1127 * r) (fl_log (fl_map (\<lambda>r. 1 + r / 700) x))"

text \<open>
  Lines 32-33: \<^verbatim>\<open>f0_mel[f0_mel > 0] = (f0_mel[f0_mel > 0] - f0_mel_min) * (f0_bin - 2) /
  (f0_mel_max - f0_mel_min) + 1\<close>.
\<close>

definition rescale_voiced :: "flt list \<Rightarrow> flt list" where
  "rescale_voiced f0_mel =
     map (\<lambda>m. if fl_gt m 0
               then fl_map (\<lambda>r. (r - f0_mel_min) * (f0_bin - 2) / (f0_mel_max - f0_mel_min) + 1) m
               else m) f0_mel"

text \<open>Line 35: \<^verbatim>\<open>f0_mel[f0_mel <= 1] = 1\<close>.\<close>

definition clamp_low :: "flt list \<Rightarrow> flt list" where
  "clamp_low f0_mel = map (\<lambda>m. if fl_le m 1 then Fin 1 else m) f0_mel"

text \<open>Line 36: \<^verbatim>\<open>f0_mel[f0_mel > f0_bin - 1] = f0_bin - 1\<close>.\<close>

definition clamp_high :: "flt list \<Rightarrow> flt list" where
  "clamp_high f0_mel = map (\<lambda>m. if fl_gt m (f0_bin - 1) then Fin (f0_bin - 1) else m) f0_mel"

text \<open>
  Lines 37-38: \<^verbatim>\<open>(f0_mel + 0.5).long()\<close> for a tensor,
  \<^verbatim>\<open>np.rint(f0_mel).astype(np.int)\<close> for an array.
\<close>

definition round_torch :: "flt list \<Rightarrow> int list" where
  "round_torch f0_mel = map (\<lambda>m. to_int64 (fl_map (\<lambda>r. r + 0.5) m)) f0_mel"

definition round_numpy :: "flt list \<Rightarrow> int list" where
  "round_numpy f0_mel = map (\<lambda>m. to_int64 (fl_rint m)) f0_mel"

text \<open>
  Lines 39-40: \<^verbatim>\<open>assert f0_coarse.max() <= 255 and f0_coarse.min() >= 1\<close>. The maximum
  of an empty array raises (\<^verbatim>\<open>ValueError\<close> in numpy, \<^verbatim>\<open>RuntimeError\<close> in torch).
\<close>

definition arr_max :: "error \<Rightarrow> int list \<Rightarrow> error + int" where
  "arr_max e xs = (case xs of [] \<Rightarrow> Inl e | x # r \<Rightarrow> Inr (fold max r x))"

definition arr_min :: "error \<Rightarrow> int list \<Rightarrow> error + int" where
  "arr_min e xs = (case xs of [] \<Rightarrow> Inl e | x # r \<Rightarrow> Inr (fold min r x))"

definition assert_range :: "error \<Rightarrow> int list \<Rightarrow> error + int list" where
  "assert_range e f0_coarse =
     (case arr_max e f0_coarse of
        Inl err \<Rightarrow> Inl err
      | Inr mx \<Rightarrow>
          if mx \<le> 255 then
            (case arr_min e f0_coarse of
               Inl err \<Rightarrow> Inl err
             | Inr mn \<Rightarrow> if 1 \<le> mn then Inr f0_coarse else Inl AssertionError)
          else Inl AssertionError)"

text \<open>
  The function. A Python float makes \<^verbatim>\<open>f0_mel\<close> a numpy scalar (\<^verbatim>\<open>np.float64\<close>), and the
  masked assignment of line 32 raises \<^verbatim>\<open>TypeError\<close>: a numpy scalar does not support
  item assignment.
\<close>

definition f0_to_coarse :: "pyval \<Rightarrow> error + int list" where
  "f0_to_coarse f0 =
     (case f0 of
        PyFloat x \<Rightarrow> Inl TypeError
      | NdArray xs \<Rightarrow>
          assert_range ValueError
            (round_numpy (clamp_high (clamp_low (rescale_voiced (map mel_of xs)))))
      | Tensor xs \<Rightarrow>
          assert_range RuntimeError
            (round_torch (clamp_high (clamp_low (rescale_voiced (map mel_of xs))))))"

subsection \<open>The quantiser on one element\<close>

text \<open>
  The statements below use the element-wise view of the array operations: \<open>clamped x\<close>
  is the value that lines 30-36 leave at a position that held \<open>x\<close>, \<open>bin_numpy\<close> and
  \<open>bin_torch\<close> are the bins that the two branches of line 37-38 make of it, and
  \<open>rescaled r\<close> is the formula of lines 32-33 on a finite non-negative frequency.
  Lemmas \<open>stages_map\<close>, \<open>f0_to_coarse_NdArray\<close> and \<open>f0_to_coarse_Tensor\<close> show that
  the array pipeline is the map of these functions.
\<close>

definition clamped :: "flt \<Rightarrow> flt" where
  "clamped x =
     (let m = mel_of x;
          m = (if fl_gt m 0
               then fl_map (\<lambda>r. (r - f0_mel_min) * (f0_bin - 2) / (f0_mel_max - f0_mel_min) + 1) m
               else m);
          m = (if fl_le m 1 then Fin 1 else m)
      in if fl_gt m (f0_bin - 1) then Fin (f0_bin - 1) else m)"

definition bin_numpy :: "flt \<Rightarrow> int" where
  "bin_numpy x = to_int64 (fl_rint (clamped x))"

definition bin_torch :: "flt \<Rightarrow> int" where
  "bin_torch x = to_int64 (fl_map (\<lambda>r. r + 0.5) (clamped x))"

definition rescaled :: "real \<Rightarrow> real" where
  "rescaled r =
     (1127 * ln (1 + r / 700) - f0_mel_min) * (f0_bin - 2) / (f0_mel_max - f0_mel_min) + 1"

text \<open>A non-negative frequency: a finite value that is at least 0, or \<open>+inf\<close>.\<close>

fun nonneg :: "flt \<Rightarrow> bool" where
  "nonneg (Fin r) = (0 \<le> r)"
| "nonneg PInf = True"
| "nonneg NInf = False"
| "nonneg NaN = False"

subsection \<open>The quantiser on a store of arrays\<close>

text \<open>
  To speak about what \<^verbatim>\<open>f0_to_coarse\<close> does to its argument, the arrays live in a store:
  a list of objects, an address being an index. An operation that builds a new array
  (\<^verbatim>\<open>1127 * np.log(1 + f0 / 700)\<close>, \<^verbatim>\<open>np.rint(...).astype(...)\<close>, \<^verbatim>\<open>(...).long()\<close>)
  allocates at the end of the store; a masked assignment \<^verbatim>\<open>f0_mel[mask] = ...\<close> overwrites
  the object at the address of \<^verbatim>\<open>f0_mel\<close>. The temporaries of an expression are not kept.
\<close>

datatype lib = Numpy | Torch

datatype obj = FloatArr lib "flt list" | IntArr lib "int list"

type_synonym heap = "obj list"

fun floats_of :: "obj \<Rightarrow> flt list" where
  "floats_of (FloatArr l xs) = xs"
| "floats_of (IntArr l ks) = map (\<lambda>k. Fin (of_int k)) ks"

fun ints_of :: "obj \<Rightarrow> int list" where
  "ints_of (IntArr l ks) = ks"
| "ints_of (FloatArr l xs) = map to_int64 xs"

fun lib_of :: "obj \<Rightarrow> lib" where
  "lib_of (FloatArr l xs) = l"
| "lib_of (IntArr l ks) = l"

definition pyval_of :: "obj \<Rightarrow> pyval" where
  "pyval_of v = (if lib_of v = Torch then Tensor (floats_of v) else NdArray (floats_of v))"

definition alloc :: "heap \<Rightarrow> obj \<Rightarrow> heap \<times> nat" where
  "alloc h v = (h @ [v], length h)"

definition assign_floats :: "heap \<Rightarrow> nat \<Rightarrow> flt list \<Rightarrow> heap" where
  "assign_floats h a xs = h[a := FloatArr (lib_of (h ! a)) xs]"

definition f0_to_coarse_ref :: "heap \<Rightarrow> nat \<Rightarrow> heap \<times> (error + nat)" where
  "f0_to_coarse_ref h f0 =
     (let is_torch = (lib_of (h ! f0) = Torch);
          (h, f0_mel) = alloc h (FloatArr (lib_of (h ! f0)) (map mel_of (floats_of (h ! f0))));
          h = assign_floats h f0_mel (rescale_voiced (floats_of (h ! f0_mel)));
          h = assign_floats h f0_mel (clamp_low (floats_of (h ! f0_mel)));
          h = assign_floats h f0_mel (clamp_high (floats_of (h ! f0_mel)));
          (h, f0_coarse) =
            (if is_torch then alloc h (IntArr Torch (round_torch (floats_of (h ! f0_mel))))
             else alloc h (IntArr Numpy (round_numpy (floats_of (h ! f0_mel)))))
      in case assert_range (if is_torch then RuntimeError else ValueError) (ints_of (h ! f0_coarse)) of
           Inl e \<Rightarrow> (h, Inl e)
         | Inr _ \<Rightarrow> (h, Inr f0_coarse))"


section \<open>Finding the latest checkpoint: \<^verbatim>\<open>latest_checkpoint_path\<close>\<close>

subsection \<open>Python strings\<close>

text \<open>
  A Python string is a sequence of Unicode code points. \<open>py_str\<close> turns an ASCII literal
  into such a string, \<open>ord\<close> a character into its code point.
\<close>

type_synonym pystr = "nat list"

definition ord :: "char \<Rightarrow> nat" where
  "ord c = of_char c"

definition py_str :: "string \<Rightarrow> pystr" where
  "py_str s = map ord s"

text \<open>
  What the interpreter knows beyond the code: the Unicode character database, which
  differs between versions of Python, and the limit on the number of digits that \<^verbatim>\<open>int\<close>
  converts (\<^verbatim>\<open>sys.get_int_max_str_digits()\<close>: 4300 by default, 0 for no limit and on
  versions without the limit). \<open>uc_isdigit\<close> is the set of the non-ASCII characters that
  \<^verbatim>\<open>str.isdigit\<close> accepts (Numeric_Type Digit or Decimal), \<open>uc_decimal\<close> gives the
  non-ASCII decimal digits (Numeric_Type Decimal) with their values. The ASCII part of the
  database is fixed: the digits are \<^verbatim>\<open>0\<close> to \<^verbatim>\<open>9\<close>.
\<close>

record interp =
  uc_isdigit :: "nat \<Rightarrow> bool"
  uc_decimal :: "nat \<Rightarrow> nat option"
  int_max_str_digits :: nat

definition isdigit :: "interp \<Rightarrow> nat \<Rightarrow> bool" where
  "isdigit py c = (if c < 128 then 48 \<le> c \<and> c \<le> 57 else uc_isdigit py c)"

definition to_decimal :: "interp \<Rightarrow> nat \<Rightarrow> nat option" where
  "to_decimal py c =
     (if c < 128 then (if 48 \<le> c \<and> c \<le> 57 then Some (c - 48) else None)
      else uc_decimal py c)"

text \<open>
  \<^verbatim>\<open>int(s)\<close> for a string \<open>s\<close> of characters that passed \<^verbatim>\<open>str.isdigit\<close> (no sign, no
  space, no underscore): it raises \<^verbatim>\<open>ValueError\<close> on the empty string, on a character that
  is not a decimal digit (a superscript two is a digit, and not a decimal one) and on more
  digits than the limit; otherwise every decimal digit counts with its value, whatever its
  script.
\<close>

definition digits_int :: "interp \<Rightarrow> pystr \<Rightarrow> int" where
  "digits_int py s =
     foldl (\<lambda>a c. 10 * a + int (case to_decimal py c of Some d \<Rightarrow> d | None \<Rightarrow> 0)) 0 s"

definition over_limit :: "interp \<Rightarrow> pystr \<Rightarrow> bool" where
  "over_limit py s =
     (640 < length s \<and> 0 < int_max_str_digits py \<and> int_max_str_digits py < length s)"

definition py_int :: "interp \<Rightarrow> pystr \<Rightarrow> error + int" where
  "py_int py s =
     (if s = [] then Inl ValueError
      else if list_ex (\<lambda>c. to_decimal py c = None) s then Inl ValueError
      else if over_limit py s then Inl ValueError
      else Inr (digits_int py s))"

subsection \<open>Paths and \<^verbatim>\<open>glob.glob\<close>\<close>

text \<open>\<^verbatim>\<open>os.path.join\<close> of two components and \<^verbatim>\<open>os.path.split\<close> (POSIX).\<close>

definition os_path_join :: "pystr \<Rightarrow> pystr \<Rightarrow> pystr" where
  "os_path_join a b =
     (if b \<noteq> [] \<and> hd b = ord CHR ''/'' then b
      else if a = [] \<or> last a = ord CHR ''/'' then a @ b
      else a @ [ord CHR ''/''] @ b)"

definition rstrip_slashes :: "pystr \<Rightarrow> pystr" where
  "rstrip_slashes p = rev (dropWhile (\<lambda>c. c = ord CHR ''/'') (rev p))"

definition os_path_split :: "pystr \<Rightarrow> pystr \<times> pystr" where
  "os_path_split p =
     (let tail = rev (takeWhile (\<lambda>c. c \<noteq> ord CHR ''/'') (rev p));
          head = take (length p - length tail) p
      in (if head \<noteq> [] \<and> \<not> list_all (\<lambda>c. c = ord CHR ''/'') head then rstrip_slashes head
          else head,
          tail))"

text \<open>
  \<open>fnmatch name pat\<close> is the match of a file name against a pattern made of literal
  characters, \<^verbatim>\<open>*\<close> (any sequence) and \<^verbatim>\<open>?\<close> (any one character). Bracket expressions
  \<^verbatim>\<open>[...]\<close> are not modelled: a \<^verbatim>\<open>[\<close> is taken literally, as \<^verbatim>\<open>fnmatch\<close> does when no
  \<^verbatim>\<open>]\<close> closes it. A name that starts with a dot is matched only by a pattern that starts
  with a dot.
\<close>

fun fnmatch :: "pystr \<Rightarrow> pystr \<Rightarrow> bool" where
  "fnmatch [] [] = True"
| "fnmatch (c # cs) [] = False"
| "fnmatch [] (p # ps) = (p = ord CHR ''*'' \<and> fnmatch [] ps)"
| "fnmatch (c # cs) (p # ps) =
     (if p = ord CHR ''*'' then fnmatch (c # cs) ps \<or> fnmatch cs (p # ps)
      else (p = ord CHR ''?'' \<or> p = c) \<and> fnmatch cs ps)"

definition ishidden :: "pystr \<Rightarrow> bool" where
  "ishidden s = (s \<noteq> [] \<and> hd s = ord CHR ''.'')"

definition has_magic :: "pystr \<Rightarrow> bool" where
  "has_magic s = list_ex (\<lambda>c. c = ord CHR ''*'' \<or> c = ord CHR ''?'' \<or> c = ord CHR ''['') s"

definition glob1 :: "pystr list \<Rightarrow> pystr \<Rightarrow> pystr list" where
  "glob1 names pat =
     filter (\<lambda>n. fnmatch n pat) (if ishidden pat then names else filter (\<lambda>n. \<not> ishidden n) names)"

text \<open>
  \<^verbatim>\<open>glob.glob(pathname)\<close>, for a pathname whose directory part has no wildcard. The file
  system is given by \<open>listing\<close>: the names in the directory part of the pathname (the
  current directory when that part is empty), in the order the system lists them, or
  \<open>None\<close> when there is no such directory. A pathname without any wildcard is returned
  as it is when it exists; otherwise the matching names are joined to the directory part.
\<close>

definition glob_glob :: "pystr list option \<Rightarrow> pystr \<Rightarrow> pystr list" where
  "glob_glob listing pathname =
     (case os_path_split pathname of (dirname, basename) \<Rightarrow>
        if \<not> has_magic pathname then
          (if basename \<noteq> [] then
             (case listing of
                None \<Rightarrow> []
              | Some names \<Rightarrow>
                  if basename \<in> set names \<or> basename = py_str ''.'' \<or> basename = py_str ''..''
                  then [pathname] else [])
           else if dirname \<noteq> [] \<and> listing \<noteq> None then [pathname] else [])
        else
          (case listing of
             None \<Rightarrow> []
           | Some names \<Rightarrow>
               if dirname = [] then glob1 names basename
               else map (os_path_join dirname) (glob1 names basename)))"

subsection \<open>The function\<close>

text \<open>
  Line 125: \<^verbatim>\<open>f_list.sort(key=lambda f: int("".join(filter(str.isdigit, f))))\<close>. The sort
  computes the key of every element first (an exception of the key function leaves the
  sort), then sorts the decorated elements by their keys, stably.
\<close>

definition sort_key_of :: "interp \<Rightarrow> pystr \<Rightarrow> error + int" where
  "sort_key_of py f = py_int py (filter (isdigit py) f)"

fun decorate :: "interp \<Rightarrow> pystr list \<Rightarrow> error + (int \<times> pystr) list" where
  "decorate py [] = Inr []"
| "decorate py (f # fs) =
     (case sort_key_of py f of
        Inl e \<Rightarrow> Inl e
      | Inr k \<Rightarrow> (case decorate py fs of Inl e \<Rightarrow> Inl e | Inr kfs \<Rightarrow> Inr ((k, f) # kfs)))"

definition list_sort :: "interp \<Rightarrow> pystr list \<Rightarrow> error + pystr list" where
  "list_sort py f_list =
     (case decorate py f_list of Inl e \<Rightarrow> Inl e | Inr kfs \<Rightarrow> Inr (map snd (sort_key fst kfs)))"

text \<open>
  Lines 123-128. \<^verbatim>\<open>f_list[-1]\<close> raises \<^verbatim>\<open>IndexError\<close> on the empty list. The \<^verbatim>\<open>print\<close>
  of the result is not modelled.
\<close>

definition latest_checkpoint_path ::
  "interp \<Rightarrow> pystr list option \<Rightarrow> pystr \<Rightarrow> pystr \<Rightarrow> error + pystr" where
  "latest_checkpoint_path py listing dir_path regex =
     (let f_list = glob_glob listing (os_path_join dir_path regex)
      in case list_sort py f_list of
           Inl e \<Rightarrow> Inl e
         | Inr f_list \<Rightarrow> if f_list = [] then Inl IndexError else Inr (last f_list))"



text \<open>
  An interpreter for the examples: beyond ASCII its database has the superscript two
  (code point 178, a digit that is not a decimal digit) and the Arabic-Indic digit three
  (code point 1635, a decimal digit of value 3); the limit of \<^verbatim>\<open>int\<close> is the default.
\<close>

definition py_sample :: interp where
  "py_sample =
     \<lparr>uc_isdigit = (\<lambda>c. c = 178 \<or> c = 1635), uc_decimal = (\<lambda>c. if c = 1635 then Some 3 else None),
      int_max_str_digits = 4300\<rparr>"

section \<open>Checkpoints: \<^verbatim>\<open>save_checkpoint\<close> and \<^verbatim>\<open>load_checkpoint\<close>\<close>

text \<open>
  A state dictionary is an ordered dictionary from parameter names to tensors; the
  tensors are left abstract (type \<open>'v\<close>), as is the state of the optimizer (type \<open>'o\<close>).
  Assignment \<^verbatim>\<open>d[k] = v\<close> is \<open>AList.update\<close> (an existing key keeps its place, a new
  key goes to the end), lookup \<^verbatim>\<open>d[k]\<close> is \<open>map_of\<close>.

  The dictionary that \<^verbatim>\<open>torch.save\<close> writes and \<^verbatim>\<open>torch.load\<close> reads has the four keys
  \<^verbatim>\<open>model\<close>, \<^verbatim>\<open>iteration\<close>, \<^verbatim>\<open>optimizer\<close> and \<^verbatim>\<open>learning_rate\<close>; a value that may be
  \<^verbatim>\<open>None\<close> is an option.
\<close>

type_synonym 'v state_dict = "(string \<times> 'v) list"

record ('v, 'o) checkpoint_dict =
  ck_model :: "'v state_dict"
  ck_iteration :: "int option"
  ck_optimizer :: "'o option"
  ck_learning_rate :: "real option"

text \<open>
  A model is a module with its state dictionary, possibly behind a wrapper that keeps it
  in the attribute \<^verbatim>\<open>module\<close> (\<^verbatim>\<open>hasattr(model, 'module')\<close>). \<^verbatim>\<open>load_state_dict\<close> is
  strict: it raises unless the given dictionary has exactly the keys of the module, and
  then replaces the value of each parameter. The shapes of the tensors are not modelled.
\<close>

datatype 'v model = Plain "'v state_dict" | Wrapped "'v state_dict"

fun state_dict_of :: "'v model \<Rightarrow> 'v state_dict" where
  "state_dict_of (Plain sd) = sd"
| "state_dict_of (Wrapped sd) = sd"

fun with_state_dict :: "'v model \<Rightarrow> 'v state_dict \<Rightarrow> 'v model" where
  "with_state_dict (Plain _) sd = Plain sd"
| "with_state_dict (Wrapped _) sd = Wrapped sd"

definition load_state_dict :: "'v model \<Rightarrow> 'v state_dict \<Rightarrow> error + 'v model" where
  "load_state_dict m sd =
     (let cur = state_dict_of m
      in if set (map fst sd) = set (map fst cur)
         then Inr (with_state_dict m
                (map (\<lambda>(k, v). (k, case map_of sd k of Some s \<Rightarrow> s | None \<Rightarrow> v)) cur))
         else Inl RuntimeError)"

text \<open>
  The world outside the function: the checkpoint files, by path, and the messages that
  the module-level \<^verbatim>\<open>logger\<close> has written (all of them through \<^verbatim>\<open>logger.info\<close>).
\<close>

record ('v, 'o) world =
  files :: "string \<rightharpoonup> ('v, 'o) checkpoint_dict"
  logged :: "string list"

definition logger_info :: "string \<Rightarrow> ('v, 'o) world \<Rightarrow> ('v, 'o) world" where
  "logger_info msg w = w\<lparr>logged := logged w @ [msg]\<rparr>"

text \<open>\<^verbatim>\<open>str\<close> of an integer, for the formatted messages.\<close>

fun str_nat :: "nat \<Rightarrow> string" where
  "str_nat n =
     (if n < 10 then [''0123456789'' ! n]
      else str_nat (n div 10) @ [''0123456789'' ! (n mod 10)])"

declare str_nat.simps [simp del]

definition str_int :: "int \<Rightarrow> string" where
  "str_int i = (if i < 0 then CHR ''-'' # str_nat (nat (- i)) else str_nat (nat i))"

definition str_opt_int :: "int option \<Rightarrow> string" where
  "str_opt_int i = (case i of None \<Rightarrow> ''None'' | Some n \<Rightarrow> str_int n)"

text \<open>
  One round of the loop of lines 78-83: \<^verbatim>\<open>new_state_dict[k] = saved_state_dict[k]\<close>, or,
  when the key is missing, the message and \<^verbatim>\<open>new_state_dict[k] = v\<close>.
\<close>

definition copy_key ::
  "'v state_dict \<Rightarrow> string \<times> 'v \<Rightarrow> 'v state_dict \<times> string list \<Rightarrow> 'v state_dict \<times> string list" where
  "copy_key saved_state_dict kv acc =
     (case kv of (k, v) \<Rightarrow>
        (case acc of (new_state_dict, msgs) \<Rightarrow>
           (case map_of saved_state_dict k of
              Some s \<Rightarrow> (AList.update k s new_state_dict, msgs)
            | None \<Rightarrow> (AList.update k v new_state_dict, msgs @ [k @ '' is not in the checkpoint'']))))"

text \<open>
  \<^verbatim>\<open>load_checkpoint\<close> (lines 61-90). The assertion of line 62 fails when there is no file
  at the path. The optimizer is an optional argument; its state is replaced by the saved
  one when both are present.
\<close>

definition load_checkpoint ::
  "('v, 'o) world \<Rightarrow> string \<Rightarrow> 'v model \<Rightarrow> 'o option \<Rightarrow>
     ('v, 'o) world \<times> (error + 'v model \<times> 'o option \<times> real \<times> int)" where
  "load_checkpoint w checkpoint_path model optimizer =
     (case files w checkpoint_path of
        None \<Rightarrow> (w, Inl AssertionError)
      | Some checkpoint_dict \<Rightarrow>
          (let iteration = (case ck_iteration checkpoint_dict of None \<Rightarrow> 1 | Some i \<Rightarrow> i);
               learning_rate =
                 (case ck_learning_rate checkpoint_dict of None \<Rightarrow> 0.0002 | Some lr \<Rightarrow> lr);
               optimizer =
                 (case optimizer of
                    None \<Rightarrow> None
                  | Some opt \<Rightarrow>
                      (case ck_optimizer checkpoint_dict of None \<Rightarrow> Some opt | Some s \<Rightarrow> Some s));
               saved_state_dict = ck_model checkpoint_dict;
               state_dict = state_dict_of model;
               (new_state_dict, msgs) = fold (copy_key saved_state_dict) state_dict ([], []);
               w = w\<lparr>logged := logged w @ msgs\<rparr>
           in case load_state_dict model new_state_dict of
                Inl e \<Rightarrow> (w, Inl e)
              | Inr model \<Rightarrow>
                  (logger_info (''Loaded checkpoint '' @ [CHR 0x27] @ checkpoint_path @ [CHR 0x27]
                      @ '' (iteration '' @ str_int iteration @ '')'') w,
                   Inr (model, optimizer, learning_rate, iteration))))"

text \<open>
  \<^verbatim>\<open>save_checkpoint\<close> (lines 93-109). \<^verbatim>\<open>optimizer.state_dict()\<close> raises
  \<^verbatim>\<open>AttributeError\<close> when the optimizer is \<^verbatim>\<open>None\<close>, after the message has been logged.
\<close>

definition save_checkpoint ::
  "('v, 'o) world \<Rightarrow> 'v model \<Rightarrow> 'o option \<Rightarrow> real option \<Rightarrow> int option \<Rightarrow> string \<Rightarrow>
     ('v, 'o) world \<times> (error + unit)" where
  "save_checkpoint w model optimizer learning_rate iteration checkpoint_path =
     (let w = logger_info (''Saving model and optimizer state at iteration '' @ str_opt_int iteration
                @ '' to '' @ checkpoint_path) w;
          state_dict = state_dict_of model
      in case optimizer of
           None \<Rightarrow> (w, Inl AttributeError)
         | Some opt \<Rightarrow>
             (w\<lparr>files := (files w)(checkpoint_path \<mapsto>
                  \<lparr>ck_model = state_dict, ck_iteration = iteration,
                   ck_optimizer = Some opt, ck_learning_rate = learning_rate\<rparr>)\<rparr>,
              Inr ()))"

text \<open>
  For the statements: the value that the loop gives to a key, the keys of the model
  that the checkpoint lacks, and the optimizer state that \<^verbatim>\<open>load_checkpoint\<close> returns.
\<close>

definition saved_or_current :: "'v state_dict \<Rightarrow> string \<Rightarrow> 'v \<Rightarrow> 'v" where
  "saved_or_current saved k v = (case map_of saved k of Some s \<Rightarrow> s | None \<Rightarrow> v)"

definition missing_keys :: "'v state_dict \<Rightarrow> 'v state_dict \<Rightarrow> string list" where
  "missing_keys saved sd = filter (\<lambda>k. map_of saved k = None) (map fst sd)"

definition restored_optimizer :: "'o option \<Rightarrow> 'o option \<Rightarrow> 'o option" where
  "restored_optimizer optimizer saved =
     (case optimizer of None \<Rightarrow> None
      | Some opt \<Rightarrow> (case saved of None \<Rightarrow> Some opt | Some s \<Rightarrow> Some s))"

section \<open>Properties of the pitch quantiser\<close>

subsection \<open>Auxiliary facts\<close>

lemma stages_map:
  "clamp_high (clamp_low (rescale_voiced (map mel_of xs))) = map clamped xs"
  by (simp add: clamp_high_def clamp_low_def rescale_voiced_def clamped_def Let_def)

lemma fold_max_le: "fold max r (x::int) \<le> c \<longleftrightarrow> x \<le> c \<and> (\<forall>y\<in>set r. y \<le> c)"
  by (induction r arbitrary: x) auto

lemma fold_min_ge: "c \<le> fold min r (x::int) \<longleftrightarrow> c \<le> x \<and> (\<forall>y\<in>set r. c \<le> y)"
  by (induction r arbitrary: x) auto

lemma assert_range_Inr:
  "assert_range e bs = Inr cs \<longleftrightarrow> bs \<noteq> [] \<and> cs = bs \<and> (\<forall>b\<in>set bs. 1 \<le> b \<and> b \<le> 255)"
  by (cases bs) (auto simp: assert_range_def arr_max_def arr_min_def fold_max_le fold_min_ge)

lemma mel_span_pos: "0 < f0_mel_max - f0_mel_min"
  by (simp add: f0_mel_max_def f0_mel_min_def f0_max_def f0_min_def)

lemma mel_min_pos: "0 < f0_mel_min"
  by (simp add: f0_mel_min_def f0_min_def)

lemma mel_of_Fin: "0 \<le> r \<Longrightarrow> mel_of (Fin r) = Fin (1127 * ln (1 + r / 700))"
  by (simp add: mel_of_def)

lemma clamped_cases:
  "clamped x = NaN \<or> (\<exists>c. clamped x = Fin c \<and> 1 \<le> c \<and> c \<le> 255)"
  by (cases "mel_of x") (auto simp: clamped_def Let_def f0_bin_def)

lemma clamped_nonneg:
  assumes "0 \<le> r" shows "\<exists>c. clamped (Fin r) = Fin c \<and> 1 \<le> c \<and> c \<le> 255"
  using clamped_cases[of "Fin r"] assms by (auto simp: clamped_def mel_of_Fin Let_def split: if_splits)

lemma rhe_bounds:
  assumes "of_int a \<le> r" "r \<le> of_int b"
  shows "a \<le> round_half_even r \<and> round_half_even r \<le> b"
proof -
  have fa: "a \<le> \<lfloor>r\<rfloor>" using assms(1) by (simp add: le_floor_iff)
  have fb: "\<lfloor>r\<rfloor> \<le> b" using assms(2) by (simp add: floor_le_iff) 
  have "round_half_even r \<le> b"
  proof (cases "\<lfloor>r\<rfloor> = b")
    case True
    then have "r - of_int \<lfloor>r\<rfloor> \<le> 0" using assms(2) by simp
    then show ?thesis using True by (simp add: round_half_even_def Let_def)
  next
    case False
    then have "\<lfloor>r\<rfloor> + 1 \<le> b" using fb by simp
    then show ?thesis by (simp add: round_half_even_def Let_def)
  qed
  moreover have "a \<le> round_half_even r" using fa by (simp add: round_half_even_def Let_def)
  ultimately show ?thesis by simp
qed

lemma rhe_mono:
  assumes "x \<le> y" shows "round_half_even x \<le> round_half_even y"
proof (cases "\<lfloor>x\<rfloor> = \<lfloor>y\<rfloor>")
  case True
  then have "x - of_int \<lfloor>x\<rfloor> \<le> y - of_int \<lfloor>y\<rfloor>" using assms by simp
  then show ?thesis using True by (auto simp: round_half_even_def Let_def)
next
  case False
  have "\<lfloor>x\<rfloor> \<le> \<lfloor>y\<rfloor>" using assms by (rule floor_mono)
  then have "\<lfloor>x\<rfloor> + 1 \<le> \<lfloor>y\<rfloor>" using False by simp
  moreover have "round_half_even x \<le> \<lfloor>x\<rfloor> + 1" by (simp add: round_half_even_def Let_def)
  moreover have "\<lfloor>y\<rfloor> \<le> round_half_even y" by (simp add: round_half_even_def Let_def)
  ultimately show ?thesis by linarith
qed

lemma to_int64_rint:
  assumes "1 \<le> c" "c \<le> 255"
  shows "to_int64 (fl_rint (Fin c)) = round_half_even c"
    and "1 \<le> round_half_even c" and "round_half_even c \<le> 255"
proof -
  have b: "1 \<le> round_half_even c \<and> round_half_even c \<le> 255"
    using rhe_bounds[of 1 c 255] assms by simp
  then show "1 \<le> round_half_even c" "round_half_even c \<le> 255" by simp_all
  show "to_int64 (fl_rint (Fin c)) = round_half_even c"
    using b by (simp add: Let_def trunc_int_def int64_min_def)
qed

lemma to_int64_half:
  assumes "1 \<le> c" "c \<le> 255"
  shows "to_int64 (fl_map (\<lambda>r. r + 1 / 2) (Fin c)) = \<lfloor>c + 1 / 2\<rfloor>"
    and "1 \<le> \<lfloor>c + 1 / 2\<rfloor>" and "\<lfloor>c + 1 / 2\<rfloor> \<le> 255"
proof -
  show lo: "1 \<le> \<lfloor>c + 1 / 2\<rfloor>" using assms by (simp add: le_floor_iff)
  show hi: "\<lfloor>c + 1 / 2\<rfloor> \<le> 255" using assms by (simp add: floor_le_iff)
  show "to_int64 (fl_map (\<lambda>r. r + 1 / 2) (Fin c)) = \<lfloor>c + 1 / 2\<rfloor>"
    using lo hi assms by (simp add: Let_def trunc_int_def int64_min_def)
qed

lemma clamped_nonneg':
  assumes "nonneg x" shows "\<exists>c. clamped x = Fin c \<and> 1 \<le> c \<and> c \<le> 255"
proof (cases x)
  case (Fin r) then show ?thesis using assms clamped_nonneg by simp
next
  case PInf then show ?thesis by (simp add: clamped_def mel_of_def f0_bin_def)
qed (use assms in simp_all)

lemma f0_to_coarse_NdArray: "f0_to_coarse (NdArray xs) = assert_range ValueError (map bin_numpy xs)"
  by (simp add: f0_to_coarse_def stages_map round_numpy_def bin_numpy_def[abs_def] comp_def)

lemma f0_to_coarse_Tensor: "f0_to_coarse (Tensor xs) = assert_range RuntimeError (map bin_torch xs)"
  by (simp add: f0_to_coarse_def stages_map round_torch_def bin_torch_def[abs_def] comp_def)

lemma bin_numpy_range: "nonneg x \<Longrightarrow> 1 \<le> bin_numpy x \<and> bin_numpy x \<le> 255"
  using clamped_nonneg'[of x] by (auto simp: bin_numpy_def to_int64_rint simp del: to_int64.simps fl_rint.simps)

lemma bin_torch_range: "nonneg x \<Longrightarrow> 1 \<le> bin_torch x \<and> bin_torch x \<le> 255"
  using clamped_nonneg'[of x] by (auto simp: bin_torch_def to_int64_half simp del: to_int64.simps fl_map.simps)

lemma clamped_Fin:
  assumes "0 \<le> r" shows "clamped (Fin r) = Fin (max 1 (min 255 (rescaled r)))"
proof (cases "r = 0")
  case True
  have "rescaled 0 \<le> 1"
    using mel_span_pos mel_min_pos by (simp add: rescaled_def f0_bin_def divide_le_0_iff)
  then show ?thesis using True by (simp add: clamped_def mel_of_def f0_bin_def)
next
  case False
  then have "0 < ln (1 + r / 700)" using assms by simp
  then show ?thesis using assms
    by (auto simp: clamped_def mel_of_def f0_bin_def rescaled_def Let_def max_def min_def)
qed

lemma rescaled_mono: assumes "0 \<le> x" "x \<le> y" shows "rescaled x \<le> rescaled y"
proof -
  have "ln (1 + x / 700) \<le> ln (1 + y / 700)" using assms by simp
  then have "(1127 * ln (1 + x / 700) - f0_mel_min) * (f0_bin - 2) \<le> (1127 * ln (1 + y / 700) - f0_mel_min) * (f0_bin - 2)"
    by (simp add: f0_bin_def)
  then show ?thesis using mel_span_pos by (simp add: rescaled_def divide_right_mono)
qed

lemma rescaled_min: "rescaled 50 = 1"
  by (simp add: rescaled_def f0_mel_min_def f0_min_def)

lemma rescaled_max: "rescaled 1100 = 255"
proof -
  have "1127 * ln (1 + 1100 / 700) = f0_mel_max" by (simp add: f0_mel_max_def f0_max_def)
  then have "rescaled 1100 = (f0_mel_max - f0_mel_min) * 254 / (f0_mel_max - f0_mel_min) + 1"
    by (simp add: rescaled_def f0_bin_def)
  moreover have "(f0_mel_max - f0_mel_min) * 254 / (f0_mel_max - f0_mel_min) = 254"
  proof -
    have c: "d \<noteq> 0 \<Longrightarrow> d * 254 / d = 254" for d :: real by simp
    have ne: "f0_mel_max - f0_mel_min \<noteq> 0" using mel_span_pos by linarith
    show ?thesis by (rule c[OF ne])
  qed
  ultimately show ?thesis by simp
qed

lemma clamped_low: assumes "0 \<le> r" "r \<le> 50" shows "clamped (Fin r) = Fin 1"
  using rescaled_mono[of r 50] assms by (simp add: clamped_Fin rescaled_min)

lemma clamped_high: assumes "1100 \<le> r" shows "clamped (Fin r) = Fin 255"
  using rescaled_mono[of 1100 r] assms by (simp add: clamped_Fin rescaled_max)

lemma rhe_int: "round_half_even (of_int k) = k"
  by (simp add: round_half_even_def)

lemma bin_low: assumes "0 \<le> r" "r \<le> 50" shows "bin_numpy (Fin r) = 1" "bin_torch (Fin r) = 1"
  using rhe_int[of 1] by (simp_all add: bin_numpy_def bin_torch_def clamped_low[OF assms] trunc_int_def int64_min_def)

lemma bin_high: assumes "1100 \<le> r" shows "bin_numpy (Fin r) = 255" "bin_torch (Fin r) = 255"
  using rhe_int[of 255] by (simp_all add: bin_numpy_def bin_torch_def clamped_high[OF assms] trunc_int_def int64_min_def)

lemma bin_eq:
  assumes "0 \<le> r"
  shows "bin_numpy (Fin r) = round_half_even (max 1 (min 255 (rescaled r)))"
    and "bin_torch (Fin r) = \<lfloor>max 1 (min 255 (rescaled r)) + 1 / 2\<rfloor>"
  using assms by (simp_all add: bin_numpy_def bin_torch_def clamped_Fin to_int64_rint to_int64_half del: to_int64.simps fl_rint.simps fl_map.simps)

lemma bin_mono:
  assumes "0 \<le> x" "x \<le> y"
  shows "bin_numpy (Fin x) \<le> bin_numpy (Fin y)" "bin_torch (Fin x) \<le> bin_torch (Fin y)"
proof -
  have c: "max 1 (min 255 (rescaled x)) \<le> max 1 (min 255 (rescaled y))"
    using rescaled_mono[OF assms] by auto
  show "bin_numpy (Fin x) \<le> bin_numpy (Fin y)" using assms rhe_mono[OF c] by (simp add: bin_eq)
  show "bin_torch (Fin x) \<le> bin_torch (Fin y)" using assms c by (simp add: bin_eq floor_mono)
qed

lemma f0_to_coarse_arr:
  assumes "mk = NdArray \<or> mk = Tensor"
  shows "f0_to_coarse (mk xs) = Inr bins \<longleftrightarrow>
     xs \<noteq> [] \<and> bins = map (if mk = Tensor then bin_torch else bin_numpy) xs \<and>
     (\<forall>b\<in>set bins. 1 \<le> b \<and> b \<le> 255)"
  using assms by (auto simp: f0_to_coarse_NdArray f0_to_coarse_Tensor assert_range_Inr)

lemma f0_to_coarse_ref_heap:
  "fst (f0_to_coarse_ref h f0) =
     h @ [FloatArr (lib_of (h ! f0)) (clamp_high (clamp_low (rescale_voiced (map mel_of (floats_of (h ! f0)))))),
          if lib_of (h ! f0) = Torch
          then IntArr Torch (round_torch (clamp_high (clamp_low (rescale_voiced (map mel_of (floats_of (h ! f0)))))))
          else IntArr Numpy (round_numpy (clamp_high (clamp_low (rescale_voiced (map mel_of (floats_of (h ! f0)))))))]"
  by (simp add: f0_to_coarse_ref_def alloc_def assign_floats_def Let_def split: sum.splits)

lemma f0_to_coarse_ref_result:
  "snd (f0_to_coarse_ref h f0) =
     (case f0_to_coarse (pyval_of (h ! f0)) of
        Inl e \<Rightarrow> Inl e | Inr bins \<Rightarrow> Inr (Suc (length h)))"
  by (simp add: f0_to_coarse_ref_def f0_to_coarse_def pyval_of_def alloc_def assign_floats_def
      Let_def nth_append split: sum.splits)

text \<open>
  The store version computes what \<open>f0_to_coarse\<close> computes: when it returns an address,
  the object there holds the bins of the argument.
\<close>

lemma f0_to_coarse_ref_bins:
  assumes "f0_to_coarse_ref h f0 = (h', Inr p)"
  shows "f0_to_coarse (pyval_of (h ! f0)) = Inr (ints_of (h' ! p))"
proof -
  have h': "h' = fst (f0_to_coarse_ref h f0)" and p: "snd (f0_to_coarse_ref h f0) = Inr p"
    using assms by simp_all
  obtain bins where b: "f0_to_coarse (pyval_of (h ! f0)) = Inr bins" and p': "p = Suc (length h)"
    using p unfolding f0_to_coarse_ref_result by (auto split: sum.splits)
  have "ints_of (h' ! p) = bins"
    using b by (auto simp: h' p' f0_to_coarse_ref_heap nth_append pyval_of_def f0_to_coarse_def
        assert_range_Inr split: if_splits)
  then show ?thesis using b by simp
qed

subsection \<open>Range of the result\<close>

text \<open>
  Claim C1. For every non-empty array (numpy array or torch tensor) of non-negative f0
  values, \<^verbatim>\<open>f0_to_coarse\<close> returns, the assertion of lines 39-40 does not fire, and every
  element of the result lies in \<open>[1, 255]\<close>.
\<close>

theorem f0_to_coarse_range:
  assumes "xs \<noteq> []" and "\<forall>x\<in>set xs. nonneg x" and "f0 = NdArray xs \<or> f0 = Tensor xs"
  shows "\<exists>bins. f0_to_coarse f0 = Inr bins \<and> length bins = length xs \<and>
           (\<forall>b\<in>set bins. 1 \<le> b \<and> b \<le> 255)"
  using assms
  by (auto simp: f0_to_coarse_NdArray f0_to_coarse_Tensor assert_range_Inr
      bin_numpy_range bin_torch_range)

theorem f0_to_coarse_range_witness:
  "nonneg (Fin 0) \<and> nonneg (Fin 440) \<and> nonneg PInf \<and>
   (\<exists>bins. f0_to_coarse (Tensor [Fin 0, Fin 440, PInf]) = Inr bins \<and> length bins = 3 \<and>
      list_all (\<lambda>b. 1 \<le> b \<and> b \<le> 255) bins)"
  using f0_to_coarse_range [of "[Fin 0, Fin 440, PInf]" "Tensor [Fin 0, Fin 440, PInf]"]
  by (simp add: list_all_iff numeral_3_eq_3)

subsection \<open>Saturation at and beyond the nominal range\<close>

text \<open>
  Claim C2. In a non-empty array of non-negative values, a position holding 0, 50 or any
  positive value below 50 gets bin 1, and a position holding 1100 or any value above 1100
  gets bin 255; the call returns without an error.
\<close>

theorem f0_to_coarse_saturates:
  assumes "xs \<noteq> []" and "\<forall>x\<in>set xs. nonneg x" and "f0 = NdArray xs \<or> f0 = Tensor xs"
  shows "\<exists>bins. f0_to_coarse f0 = Inr bins \<and> length bins = length xs \<and>
           (\<forall>i<length xs. \<forall>r. xs ! i = Fin r \<longrightarrow>
              (r \<le> 50 \<longrightarrow> bins ! i = 1) \<and> (1100 \<le> r \<longrightarrow> bins ! i = 255))"
proof -
  have nn: "0 \<le> r" if "i < length xs" "xs ! i = Fin r" for i r
    using assms(2) that by (metis nonneg.simps(1) nth_mem)
  from assms(3) show ?thesis
  proof
    assume f: "f0 = NdArray xs"
    have "f0_to_coarse f0 = Inr (map bin_numpy xs)"
      using assms(1,2) by (simp add: f f0_to_coarse_NdArray assert_range_Inr bin_numpy_range)
    moreover have "(r \<le> 50 \<longrightarrow> map bin_numpy xs ! i = 1) \<and> (1100 \<le> r \<longrightarrow> map bin_numpy xs ! i = 255)"
      if "i < length xs" "xs ! i = Fin r" for i r
      using that nn[OF that] by (simp add: bin_low bin_high)
    ultimately show ?thesis by simp
  next
    assume f: "f0 = Tensor xs"
    have "f0_to_coarse f0 = Inr (map bin_torch xs)"
      using assms(1,2) by (simp add: f f0_to_coarse_Tensor assert_range_Inr bin_torch_range)
    moreover have "(r \<le> 50 \<longrightarrow> map bin_torch xs ! i = 1) \<and> (1100 \<le> r \<longrightarrow> map bin_torch xs ! i = 255)"
      if "i < length xs" "xs ! i = Fin r" for i r
      using that nn[OF that] by (simp add: bin_low bin_high)
    ultimately show ?thesis by simp
  qed
qed

theorem f0_to_coarse_saturates_witness:
  "f0_to_coarse (NdArray [Fin 0, Fin 50, Fin 20, Fin 1100, Fin 4000]) = Inr [1, 1, 1, 255, 255]"
proof -
  let ?xs = "[Fin 0, Fin 50, Fin 20, Fin 1100, Fin 4000]"
  obtain bins where b: "f0_to_coarse (NdArray ?xs) = Inr bins" "length bins = length ?xs"
    and s: "\<forall>i<length ?xs. \<forall>r. ?xs ! i = Fin r \<longrightarrow>
              (r \<le> 50 \<longrightarrow> bins ! i = 1) \<and> (1100 \<le> r \<longrightarrow> bins ! i = 255)"
    using f0_to_coarse_saturates [of ?xs "NdArray ?xs"] by auto
  have "bins ! 0 = 1" using s [rule_format, of 0 0] by simp
  moreover have "bins ! 1 = 1" using s [rule_format, of 1 50] by simp
  moreover have "bins ! 2 = 1" using s [rule_format, of 2 20] by simp
  moreover have "bins ! 3 = 255" using s [rule_format, of 3 1100] by simp
  moreover have "bins ! 4 = 255" using s [rule_format, of 4 4000] by simp
  ultimately have "bins = [1, 1, 1, 255, 255]"
    using b(2) by (auto simp: list_eq_iff_nth_eq less_Suc_eq numeral_eq_Suc)
  then show ?thesis using b(1) by simp
qed

subsection \<open>Monotonicity\<close>

text \<open>
  Claim C3. On the nominal voiced range the quantiser is monotonically non-decreasing:
  for \<open>50 \<le> x \<le> y \<le> 1100\<close> the bin of \<open>x\<close> is at most the bin of \<open>y\<close>, in both
  the numpy and the torch branch.
\<close>

theorem f0_to_coarse_monotone:
  assumes "mk = NdArray \<or> mk = Tensor" and "50 \<le> x" and "x \<le> y" and "y \<le> 1100"
  shows "\<exists>bx by. f0_to_coarse (mk [Fin x]) = Inr [bx] \<and>
           f0_to_coarse (mk [Fin y]) = Inr [by] \<and> bx \<le> by"
proof -
  have x0: "0 \<le> x" and y0: "0 \<le> y" using assms by simp_all
  have m: "bin_numpy (Fin x) \<le> bin_numpy (Fin y)" "bin_torch (Fin x) \<le> bin_torch (Fin y)"
    using bin_mono[OF x0 assms(3)] by simp_all
  from assms(1) show ?thesis
  proof
    assume "mk = NdArray"
    then show ?thesis using m(1) x0 y0
      by (simp add: f0_to_coarse_NdArray assert_range_Inr bin_numpy_range)
  next
    assume "mk = Tensor"
    then show ?thesis using m(2) x0 y0
      by (simp add: f0_to_coarse_Tensor assert_range_Inr bin_torch_range)
  qed
qed

theorem f0_to_coarse_monotone_witness:
  "(50::real) \<le> 220 \<and> (220::real) \<le> 440 \<and> (440::real) \<le> 1100 \<and>
   (\<exists>bx by. f0_to_coarse (NdArray [Fin 220]) = Inr [bx] \<and>
      f0_to_coarse (NdArray [Fin 440]) = Inr [by] \<and> bx \<le> by)"
  using f0_to_coarse_monotone [of NdArray 220 440] by simp

subsection \<open>Arrays and scalars\<close>

text \<open>
  Claim C4, as amended. Whenever the call on an array (or tensor) returns, the bin at
  index \<open>i\<close> is the bin that the call on the one-element array holding \<open>xs ! i\<close> returns;
  a bare Python or numpy scalar is not accepted: the call raises \<^verbatim>\<open>TypeError\<close>.
\<close>

theorem f0_to_coarse_elementwise:
  assumes "mk = NdArray \<or> mk = Tensor" and "f0_to_coarse (mk xs) = Inr bins" and "i < length xs"
  shows "f0_to_coarse (mk [xs ! i]) = Inr [bins ! i] \<and> f0_to_coarse (PyFloat v) = Inl TypeError"
proof -
  have "f0_to_coarse (mk [xs ! i]) = Inr [bins ! i]"
    using assms(2,3) unfolding f0_to_coarse_arr[OF assms(1)] by (auto simp: all_set_conv_all_nth)
  then show ?thesis by (simp add: f0_to_coarse_def)
qed

theorem f0_to_coarse_elementwise_witness:
  "f0_to_coarse (NdArray [Fin 0, Fin 1100]) = Inr [1, 255] \<and>
   f0_to_coarse (NdArray [Fin 1100]) = Inr [255] \<and>
   f0_to_coarse (PyFloat 1100) = Inl TypeError"
proof -
  have h: "f0_to_coarse (NdArray [Fin 0, Fin 1100]) = Inr [1, 255]"
    by (simp add: f0_to_coarse_NdArray assert_range_Inr bin_low bin_high)
  show ?thesis
    using h f0_to_coarse_elementwise [of NdArray "[Fin 0, Fin 1100]" "[1, 255]" 1 1100] by simp
qed

text \<open>
  The claim as stated fails on a bare scalar: the call on the float 50 raises, the call
  on the one-element array holding 50 returns bin 1.
\<close>

theorem f0_to_coarse_scalar_counterexample:
  "f0_to_coarse (PyFloat 50) = Inl TypeError \<and> f0_to_coarse (NdArray [Fin 50]) = Inr [1]"
proof
  show "f0_to_coarse (PyFloat 50) = Inl TypeError" by (simp add: f0_to_coarse_def)
  show "f0_to_coarse (NdArray [Fin 50]) = Inr [1]"
    by (simp add: f0_to_coarse_NdArray assert_range_Inr bin_low)
qed

subsection \<open>The argument is left unchanged\<close>

text \<open>
  Claim C8. The call leaves its argument as it was: after \<^verbatim>\<open>f0_to_coarse\<close>, whether it
  returned or raised, the input array and every other object that existed before the call
  are unchanged, and the returned array is a fresh object.
\<close>

theorem f0_to_coarse_frame:
  assumes "f0_to_coarse_ref h f0 = (h', res)" and "f0 < length h"
  shows "h' ! f0 = h ! f0 \<and> take (length h) h' = h \<and>
         (case res of Inl e \<Rightarrow> True | Inr p \<Rightarrow> length h \<le> p \<and> p < length h')"
proof -
  have h': "h' = fst (f0_to_coarse_ref h f0)" and res: "res = snd (f0_to_coarse_ref h f0)"
    using assms(1) by simp_all
  have "h' ! f0 = h ! f0" using assms(2) by (simp add: h' f0_to_coarse_ref_heap nth_append)
  moreover have "take (length h) h' = h" by (simp add: h' f0_to_coarse_ref_heap)
  moreover have "case res of Inl e \<Rightarrow> True | Inr p \<Rightarrow> length h \<le> p \<and> p < length h'"
    by (simp add: h' res f0_to_coarse_ref_heap f0_to_coarse_ref_result split: sum.splits)
  ultimately show ?thesis by simp
qed

theorem f0_to_coarse_frame_witness:
  "fst (f0_to_coarse_ref [FloatArr Numpy [Fin 0, Fin 1100]] 0) ! 0 = FloatArr Numpy [Fin 0, Fin 1100] \<and>
   take 1 (fst (f0_to_coarse_ref [FloatArr Numpy [Fin 0, Fin 1100]] 0)) = [FloatArr Numpy [Fin 0, Fin 1100]]"
  using f0_to_coarse_frame [of "[FloatArr Numpy [Fin 0, Fin 1100]]" 0
      "fst (f0_to_coarse_ref [FloatArr Numpy [Fin 0, Fin 1100]] 0)"
      "snd (f0_to_coarse_ref [FloatArr Numpy [Fin 0, Fin 1100]] 0)"]
  by simp

section \<open>Properties of the checkpoint finder\<close>









subsection \<open>Examples\<close>

text \<open>
  A path without a digit raises, whatever the interpreter; a superscript two passes
  \<^verbatim>\<open>str.isdigit\<close> and makes \<^verbatim>\<open>int\<close> raise; an Arabic-Indic digit is read as a decimal
  digit; the empty pattern makes \<^verbatim>\<open>glob.glob\<close> return the directory itself.
\<close>

lemmas finder_defs =
  latest_checkpoint_path_def list_sort_def sort_key_of_def py_int_def digits_int_def over_limit_def
  glob_glob_def glob1_def has_magic_def ishidden_def os_path_join_def os_path_split_def
  rstrip_slashes_def py_str_def ord_def isdigit_def to_decimal_def


lemma path_with_superscript:
  "latest_checkpoint_path py_sample (Some [py_str ''G_1'' @ [178] @ py_str ''.pth''])
     (py_str ''ckpt'') (py_str ''G_*.pth'') = Inl ValueError"
  by (simp add: finder_defs py_sample_def)

lemma path_with_arabic_indic_digit:
  "latest_checkpoint_path py_sample (Some [py_str ''G_'' @ [1635] @ py_str ''.pth''])
     (py_str ''ckpt'') (py_str ''G_*.pth'') = Inr (py_str ''ckpt/G_'' @ [1635] @ py_str ''.pth'')"
  by (simp add: finder_defs py_sample_def)

lemma empty_pattern:
  "latest_checkpoint_path py_sample (Some [py_str ''G_2.pth'']) (py_str ''run1'') []
     = Inr (py_str ''run1/'')"
  by (simp add: finder_defs py_sample_def)

subsection \<open>The result of the call\<close>




section \<open>Properties of the checkpoint functions\<close>

lemma copy_key_eq:
  "copy_key saved (k, v) (new, msgs) =
     (AList.update k (saved_or_current saved k v) new,
      msgs @ (if map_of saved k = None then [k @ '' is not in the checkpoint''] else []))"
  by (simp add: copy_key_def saved_or_current_def split: option.splits)

lemma fold_copy_key_msgs:
  "snd (fold (copy_key saved) sd (new, msgs)) =
     msgs @ map (\<lambda>k. k @ '' is not in the checkpoint'') (missing_keys saved sd)"
  by (induction sd arbitrary: new msgs) (auto simp: copy_key_eq missing_keys_def)

lemma fold_copy_key_keys:
  "fst ` set (fst (fold (copy_key saved) sd (new, msgs))) = fst ` set new \<union> fst ` set sd"
proof (induction sd arbitrary: new msgs)
  case Nil
  then show ?case by simp
next
  case (Cons a sd)
  obtain k v where a: "a = (k, v)" by (cases a)
  have "fst ` set (fst (fold (copy_key saved) (a # sd) (new, msgs))) =
        fst ` set (AList.update k (saved_or_current saved k v) new) \<union> fst ` set sd"
    by (simp add: a copy_key_eq Cons.IH)
  also have "\<dots> = fst ` set new \<union> fst ` set (a # sd)"
    by (simp add: a dom_update)
  finally show ?case .
qed

lemma fold_copy_key_other:
  "k \<notin> fst ` set sd \<Longrightarrow>
     map_of (fst (fold (copy_key saved) sd (new, msgs))) k = map_of new k"
  by (induction sd arbitrary: new msgs) (auto simp: copy_key_eq update_conv')

lemma fold_copy_key_lookup:
  "distinct (map fst sd) \<Longrightarrow> (k, v) \<in> set sd \<Longrightarrow>
     map_of (fst (fold (copy_key saved) sd (new, msgs))) k = Some (saved_or_current saved k v)"
proof (induction sd arbitrary: new msgs)
  case Nil
  then show ?case by simp
next
  case (Cons a sd)
  obtain k' v' where a: "a = (k', v')" by (cases a)
  show ?case
  proof (cases "(k, v) \<in> set sd")
    case True
    then show ?thesis using Cons by (simp add: a copy_key_eq)
  next
    case False
    then have kv: "k' = k" "v' = v" using Cons.prems(2) a by auto
    have "k \<notin> fst ` set sd" using Cons.prems(1) a kv by auto
    then show ?thesis by (simp add: a kv copy_key_eq fold_copy_key_other update_conv')
  qed
qed

lemma load_state_dict_new:
  assumes "fold (copy_key saved) (state_dict_of model) ([], []) = (new, msgs)"
  shows "\<exists>m. load_state_dict model new = Inr m \<and>
           map fst (state_dict_of m) = map fst (state_dict_of model) \<and>
           (distinct (map fst (state_dict_of model)) \<longrightarrow>
              m = with_state_dict model
                    (map (\<lambda>(k, v). (k, saved_or_current saved k v)) (state_dict_of model)))"
proof -
  have new: "new = fst (fold (copy_key saved) (state_dict_of model) ([], []))"
    using assms by simp
  have keys: "set (map fst new) = set (map fst (state_dict_of model))"
    using fold_copy_key_keys[of saved "state_dict_of model" "[]" "[]"] by (simp add: new)
  have sd: "state_dict_of (with_state_dict model x) = x" for x :: "'a state_dict"
    by (cases model) simp_all
  have eq: "map (\<lambda>(k, v). (k, case map_of new k of Some s \<Rightarrow> s | None \<Rightarrow> v)) (state_dict_of model)
        = map (\<lambda>(k, v). (k, saved_or_current saved k v)) (state_dict_of model)"
    if "distinct (map fst (state_dict_of model))"
    by (rule map_cong [OF refl]) (auto simp: new fold_copy_key_lookup [OF that])
  have l: "load_state_dict model new = Inr (with_state_dict model
      (map (\<lambda>(k, v). (k, case map_of new k of Some s \<Rightarrow> s | None \<Rightarrow> v)) (state_dict_of model)))"
    using keys by (simp add: load_state_dict_def Let_def)
  show ?thesis
  proof (intro exI conjI impI)
    show "load_state_dict model new = Inr (with_state_dict model
      (map (\<lambda>(k, v). (k, case map_of new k of Some s \<Rightarrow> s | None \<Rightarrow> v)) (state_dict_of model)))"
      by (rule l)
    show "map fst (state_dict_of (with_state_dict model
      (map (\<lambda>(k, v). (k, case map_of new k of Some s \<Rightarrow> s | None \<Rightarrow> v)) (state_dict_of model))))
      = map fst (state_dict_of model)"
      by (simp add: sd comp_def case_prod_beta)
    show "with_state_dict model
      (map (\<lambda>(k, v). (k, case map_of new k of Some s \<Rightarrow> s | None \<Rightarrow> v)) (state_dict_of model))
      = with_state_dict model
          (map (\<lambda>(k, v). (k, saved_or_current saved k v)) (state_dict_of model))"
      if "distinct (map fst (state_dict_of model))"
      by (simp only: eq [OF that])
  qed
qed

lemma load_checkpoint_file:
  assumes "files w path = Some ck"
  shows "\<exists>m. load_checkpoint w path model optimizer =
           (w\<lparr>logged := logged w
                @ map (\<lambda>k. k @ '' is not in the checkpoint'') (missing_keys (ck_model ck) (state_dict_of model))
                @ [''Loaded checkpoint '' @ [CHR 0x27] @ path @ [CHR 0x27] @ '' (iteration ''
                     @ str_int (case ck_iteration ck of None \<Rightarrow> 1 | Some i \<Rightarrow> i) @ '')'']\<rparr>,
            Inr (m, restored_optimizer optimizer (ck_optimizer ck),
                 (case ck_learning_rate ck of None \<Rightarrow> 0.0002 | Some lr \<Rightarrow> lr),
                 (case ck_iteration ck of None \<Rightarrow> 1 | Some i \<Rightarrow> i)))
         \<and> map fst (state_dict_of m) = map fst (state_dict_of model)
         \<and> (distinct (map fst (state_dict_of model)) \<longrightarrow>
              m = with_state_dict model
                    (map (\<lambda>(k, v). (k, saved_or_current (ck_model ck) k v)) (state_dict_of model)))"
proof -
  obtain new msgs where f: "fold (copy_key (ck_model ck)) (state_dict_of model) ([], []) = (new, msgs)"
    by (cases "fold (copy_key (ck_model ck)) (state_dict_of model) ([], [])")
  have msgs: "msgs = map (\<lambda>k. k @ '' is not in the checkpoint'') (missing_keys (ck_model ck) (state_dict_of model))"
    using fold_copy_key_msgs[of "ck_model ck" "state_dict_of model" "[]" "[]"] f by simp
  obtain m where m: "load_state_dict model new = Inr m"
      "map fst (state_dict_of m) = map fst (state_dict_of model)"
      "distinct (map fst (state_dict_of model)) \<longrightarrow>
              m = with_state_dict model
                    (map (\<lambda>(k, v). (k, saved_or_current (ck_model ck) k v)) (state_dict_of model))"
    using load_state_dict_new[OF f] by blast
  have "load_checkpoint w path model optimizer =
           (w\<lparr>logged := logged w @ msgs
                @ [''Loaded checkpoint '' @ [CHR 0x27] @ path @ [CHR 0x27] @ '' (iteration ''
                     @ str_int (case ck_iteration ck of None \<Rightarrow> 1 | Some i \<Rightarrow> i) @ '')'']\<rparr>,
            Inr (m, restored_optimizer optimizer (ck_optimizer ck),
                 (case ck_learning_rate ck of None \<Rightarrow> 0.0002 | Some lr \<Rightarrow> lr),
                 (case ck_iteration ck of None \<Rightarrow> 1 | Some i \<Rightarrow> i)))"
    by (simp add: load_checkpoint_def assms f m(1) Let_def logger_info_def restored_optimizer_def)
  then show ?thesis using m(2,3) msgs by blast
qed

lemma state_dict_with [simp]: "state_dict_of (with_state_dict m sd) = sd"
  by (cases m) simp_all

lemma map_of_saved_or_current:
  assumes "distinct (map fst sd)" and "(k, v) \<in> set sd"
  shows "map_of (map (\<lambda>(k, v). (k, saved_or_current saved k v)) sd) k = Some (saved_or_current saved k v)"
proof -
  have d: "distinct (map fst (map (\<lambda>(k, v). (k, saved_or_current saved k v)) sd))"
    using assms(1) by (simp add: comp_def case_prod_beta)
  have "(k, saved_or_current saved k v) \<in> set (map (\<lambda>(k, v). (k, saved_or_current saved k v)) sd)"
    using assms(2) by force
  then show ?thesis using d by (simp only: map_of_eq_Some_iff)
qed

lemma same_keys_restore:
  assumes "distinct (map fst xs)" and "map fst ys = map fst xs"
  shows "map (\<lambda>(k, v). (k, saved_or_current xs k v)) ys = xs"
proof (rule nth_equalityI)
  have len: "length ys = length xs" using assms(2) by (metis length_map)
  show "length (map (\<lambda>(k, v). (k, saved_or_current xs k v)) ys) = length xs" using len by simp
  fix i assume "i < length (map (\<lambda>(k, v). (k, saved_or_current xs k v)) ys)"
  then have i: "i < length xs" "i < length ys" using len by simp_all
  have k: "fst (ys ! i) = fst (xs ! i)" using assms(2) i by (metis nth_map)
  have "xs ! i \<in> set xs" using i by simp
  then have "map_of xs (fst (xs ! i)) = Some (snd (xs ! i))"
    using assms(1) by (simp add: map_of_eq_Some_iff)
  then have "saved_or_current xs (fst (ys ! i)) (snd (ys ! i)) = snd (xs ! i)"
    by (simp add: saved_or_current_def k)
  then show "map (\<lambda>(k, v). (k, saved_or_current xs k v)) ys ! i = xs ! i"
    using i k by (simp add: case_prod_beta prod_eq_iff)
qed

lemma save_checkpoint_Some:
  "save_checkpoint w model (Some opt) learning_rate iteration path =
     (w\<lparr>files := (files w)(path \<mapsto>
            \<lparr>ck_model = state_dict_of model, ck_iteration = iteration,
             ck_optimizer = Some opt, ck_learning_rate = learning_rate\<rparr>),
         logged := logged w @ [''Saving model and optimizer state at iteration ''
            @ str_opt_int iteration @ '' to '' @ path]\<rparr>,
      Inr ())"
  by (simp add: save_checkpoint_def logger_info_def Let_def)

text \<open>
  Claim C6. When the file exists, \<^verbatim>\<open>load_checkpoint\<close> returns whatever keys the saved state
  lacks: the loaded model has the keys of the current model, a key that the saved state
  lacks keeps its current value, every other key takes the saved value, and one message
  "<key> is not in the checkpoint" is logged for each missing key, in the order of the
  model's keys, before the final message.
\<close>

theorem load_checkpoint_missing_keys:
  assumes "files w path = Some ck" and "distinct (map fst (state_dict_of model))"
  shows "\<exists>w' m opt lr it.
           load_checkpoint w path model optimizer = (w', Inr (m, opt, lr, it)) \<and>
           map fst (state_dict_of m) = map fst (state_dict_of model) \<and>
           (\<forall>(k, v)\<in>set (state_dict_of model).
              map_of (state_dict_of m) k =
                Some (case map_of (ck_model ck) k of Some s \<Rightarrow> s | None \<Rightarrow> v)) \<and>
           logged w' = logged w
             @ map (\<lambda>k. k @ '' is not in the checkpoint'')
                 (filter (\<lambda>k. map_of (ck_model ck) k = None) (map fst (state_dict_of model)))
             @ [''Loaded checkpoint '' @ [CHR 0x27] @ path @ [CHR 0x27] @ '' (iteration '' @ str_int it @ '')'']"
proof -
  obtain m where m: "load_checkpoint w path model optimizer =
           (w\<lparr>logged := logged w
                @ map (\<lambda>k. k @ '' is not in the checkpoint'') (missing_keys (ck_model ck) (state_dict_of model))
                @ [''Loaded checkpoint '' @ [CHR 0x27] @ path @ [CHR 0x27] @ '' (iteration ''
                     @ str_int (case ck_iteration ck of None \<Rightarrow> 1 | Some i \<Rightarrow> i) @ '')'']\<rparr>,
            Inr (m, restored_optimizer optimizer (ck_optimizer ck),
                 (case ck_learning_rate ck of None \<Rightarrow> 0.0002 | Some lr \<Rightarrow> lr),
                 (case ck_iteration ck of None \<Rightarrow> 1 | Some i \<Rightarrow> i)))"
    and k: "map fst (state_dict_of m) = map fst (state_dict_of model)"
    and v: "m = with_state_dict model
                    (map (\<lambda>(k, v). (k, saved_or_current (ck_model ck) k v)) (state_dict_of model))"
    using load_checkpoint_file[OF assms(1), of model optimizer] assms(2) by blast
  have "map_of (state_dict_of m) k = Some (case map_of (ck_model ck) k of Some s \<Rightarrow> s | None \<Rightarrow> v)"
    if "(k, v) \<in> set (state_dict_of model)" for k v
    using map_of_saved_or_current[OF assms(2) that, of "ck_model ck"]
    by (simp add: v saved_or_current_def)
  then have "\<forall>(k, v)\<in>set (state_dict_of model).
              map_of (state_dict_of m) k =
                Some (case map_of (ck_model ck) k of Some s \<Rightarrow> s | None \<Rightarrow> v)"
    by blast
  then show ?thesis using m k by (simp add: missing_keys_def)
qed

theorem load_checkpoint_missing_keys_witness:
  "\<exists>w' m opt lr it.
     load_checkpoint
       \<lparr>files = [''G_1.pth'' \<mapsto> \<lparr>ck_model = [(''w'', 1::int)], ck_iteration = Some 7,
                   ck_optimizer = Some (5::nat), ck_learning_rate = Some 1\<rparr>], logged = []\<rparr>
       ''G_1.pth'' (Plain [(''w'', 0), (''b'', 3)]) None = (w', Inr (m, opt, lr, it)) \<and>
     map fst (state_dict_of m) = [''w'', ''b''] \<and>
     map_of (state_dict_of m) ''w'' = Some 1 \<and>
     map_of (state_dict_of m) ''b'' = Some 3 \<and>
     logged w' = [''b is not in the checkpoint'',
       ''Loaded checkpoint '' @ [CHR 0x27] @ ''G_1.pth'' @ [CHR 0x27] @ '' (iteration '' @ str_int it @ '')'']"
  using load_checkpoint_missing_keys
    [of "\<lparr>files = [''G_1.pth'' \<mapsto> \<lparr>ck_model = [(''w'', 1::int)], ck_iteration = Some 7,
                   ck_optimizer = Some (5::nat), ck_learning_rate = Some 1\<rparr>], logged = []\<rparr>"
        "''G_1.pth''"
        "\<lparr>ck_model = [(''w'', 1::int)], ck_iteration = Some 7,
                   ck_optimizer = Some (5::nat), ck_learning_rate = Some 1\<rparr>"
        "Plain [(''w'', 0), (''b'', 3)]" None]
  by simp

text \<open>
  Claim C9. \<^verbatim>\<open>load_checkpoint\<close> returns iteration 1 when the checkpoint stores \<^verbatim>\<open>None\<close> for
  the iteration and the learning rate 0.0002 when it stores \<^verbatim>\<open>None\<close> for the learning
  rate; a stored value is returned as it is.
\<close>

theorem load_checkpoint_defaults:
  assumes "files w path = Some ck"
  shows "\<exists>w' m opt.
           load_checkpoint w path model optimizer =
             (w', Inr (m, opt,
                (case ck_learning_rate ck of None \<Rightarrow> 0.0002 | Some lr \<Rightarrow> lr),
                (case ck_iteration ck of None \<Rightarrow> 1 | Some i \<Rightarrow> i)))"
  using load_checkpoint_file[OF assms, of model optimizer] by blast

theorem load_checkpoint_defaults_witness:
  "\<exists>w' m opt.
     load_checkpoint
       \<lparr>files = [''G_1.pth'' \<mapsto> \<lparr>ck_model = [(''w'', 1::int)], ck_iteration = None,
                   ck_optimizer = Some (5::nat), ck_learning_rate = None\<rparr>], logged = []\<rparr>
       ''G_1.pth'' (Plain [(''w'', 0)]) None = (w', Inr (m, opt, 0.0002, 1))"
  using load_checkpoint_defaults
    [of "\<lparr>files = [''G_1.pth'' \<mapsto> \<lparr>ck_model = [(''w'', 1::int)], ck_iteration = None,
                   ck_optimizer = Some (5::nat), ck_learning_rate = None\<rparr>], logged = []\<rparr>"
        "''G_1.pth''"
        "\<lparr>ck_model = [(''w'', 1::int)], ck_iteration = None,
                   ck_optimizer = Some (5::nat), ck_learning_rate = None\<rparr>"
        "Plain [(''w'', 0)]" None]
  by simp

text \<open>
  Claim C7. Saving a model, an optimizer state, a learning rate and an iteration, and then
  loading the written path into a current model and an optimizer, returns the saved
  optimizer state, learning rate and iteration, and a model in which every key present
  both in the saved state and in the current model has the saved value; when the current
  model has the keys of the saved one, the loaded state is the saved state.
\<close>

theorem checkpoint_round_trip:
  assumes "distinct (map fst (state_dict_of current))"
  shows "\<exists>w1 w2 m.
           save_checkpoint w model (Some opt) (Some lr) (Some it) path = (w1, Inr ()) \<and>
           load_checkpoint w1 path current (Some opt') = (w2, Inr (m, Some opt, lr, it)) \<and>
           (\<forall>k\<in>fst ` set (state_dict_of model) \<inter> fst ` set (state_dict_of current).
              map_of (state_dict_of m) k = map_of (state_dict_of model) k) \<and>
           (distinct (map fst (state_dict_of model)) \<and>
            map fst (state_dict_of current) = map fst (state_dict_of model) \<longrightarrow>
              state_dict_of m = state_dict_of model)"
proof -
  let ?ck = "\<lparr>ck_model = state_dict_of model, ck_iteration = Some it,
             ck_optimizer = Some opt, ck_learning_rate = Some lr\<rparr>"
  let ?w1 = "w\<lparr>files := (files w)(path \<mapsto> ?ck),
         logged := logged w @ [''Saving model and optimizer state at iteration ''
            @ str_opt_int (Some it) @ '' to '' @ path]\<rparr>"
  have f: "files ?w1 path = Some ?ck" by simp
  obtain m w2 where l: "load_checkpoint ?w1 path current (Some opt') = (w2, Inr (m, Some opt, lr, it))"
    and v: "m = with_state_dict current
                    (map (\<lambda>(k, v). (k, saved_or_current (state_dict_of model) k v)) (state_dict_of current))"
    using load_checkpoint_file[OF f, of current "Some opt'"] assms
    by (auto simp: restored_optimizer_def)
  have both: "map_of (state_dict_of m) k = map_of (state_dict_of model) k"
    if "k \<in> fst ` set (state_dict_of model) \<inter> fst ` set (state_dict_of current)" for k
  proof -
    have "k \<in> fst ` set (state_dict_of current)" using that by simp
    then obtain c where c: "(k, c) \<in> set (state_dict_of current)" by force
    have km: "k \<in> fst ` set (state_dict_of model)" using that by simp
    obtain s where s: "map_of (state_dict_of model) k = Some s"
      using km by (metis domD dom_map_of_conv_image_fst)
    show ?thesis
      using map_of_saved_or_current[OF assms c, of "state_dict_of model"] s
      by (simp add: v saved_or_current_def)
  qed
  have same: "state_dict_of m = state_dict_of model"
    if "distinct (map fst (state_dict_of model))"
      "map fst (state_dict_of current) = map fst (state_dict_of model)"
    using same_keys_restore[OF that] by (simp add: v)
  show ?thesis
    using l both same by (intro exI[of _ ?w1] exI[of _ w2] exI[of _ m]) (simp add: save_checkpoint_Some)
qed

theorem checkpoint_round_trip_witness:
  "\<exists>w1 w2 m.
     save_checkpoint \<lparr>files = Map.empty, logged = []\<rparr> (Plain [(''w'', 1::int), (''b'', 2)])
       (Some (5::nat)) (Some 0.0001) (Some 2000) ''G_2000.pth'' = (w1, Inr ()) \<and>
     load_checkpoint w1 ''G_2000.pth'' (Wrapped [(''w'', 0), (''b'', 0)]) (Some 0)
       = (w2, Inr (m, Some 5, 0.0001, 2000)) \<and>
     state_dict_of m = [(''w'', 1), (''b'', 2)]"
  using checkpoint_round_trip
    [of "Wrapped [(''w'', 0::int), (''b'', 0)]" "\<lparr>files = Map.empty, logged = []\<rparr>"
        "Plain [(''w'', 1::int), (''b'', 2)]" "5::nat" "0.0001" 2000 "''G_2000.pth''" 0]
  by simp blast

end
